theory Spec2Isabelle
  imports Complex_Main
begin

section \<open>Values, errors and the ambient library\<close>

text \<open>
  A raw task arrives as an untyped key-value mapping, so field values are modelled by a
  datatype of Python values: the JSON scalars and arrays, plus calendar dates (a date is
  its day ordinal) and timestamps (the day ordinal of their date component). Python floats
  are taken as exact reals. Strings are ASCII text.
\<close>

datatype pyval =
    PNone
  | PBool bool
  | PInt int
  | PFloat real
  | PStr string
  | PList "pyval list"
  | PDate int
  | PDateTime int

datatype error = AttributeError | TypeError | ValueError | KeyError | RecursionError

type_synonym task = "string \<rightharpoonup> pyval"

text \<open>
  What the scoring module takes from outside itself: the current date
  (\<^verbatim>\<open>date.today()\<close>), the interpreter's recursion limit, and four library
  conversions whose text formats are not part of this repository: \<^verbatim>\<open>int()\<close>
  on text (\<open>None\<close> is its ValueError), \<^verbatim>\<open>datetime.strptime\<close> followed by
  \<^verbatim>\<open>.date()\<close> (\<open>None\<close> is its ValueError), \<^verbatim>\<open>str()\<close> of a value and
  \<^verbatim>\<open>date.isoformat()\<close>.
\<close>

record env =
  today :: int
  recursion_limit :: nat
  int_of_text :: "string \<Rightarrow> int option"
  strptime :: "string \<Rightarrow> string \<Rightarrow> int option"
  str_of :: "pyval \<Rightarrow> string"
  isoformat :: "int \<Rightarrow> string"

subsection \<open>Python built-ins used by the module\<close>

text \<open>Numeric reading of a value, for the equality \<^verbatim>\<open>True == 1 == 1.0\<close>.\<close>

fun py_num :: "pyval \<Rightarrow> real option" where
  "py_num (PBool b) = Some (if b then 1 else 0)"
| "py_num (PInt i) = Some (of_int i)"
| "py_num (PFloat r) = Some r"
| "py_num _ = None"

text \<open>\<^verbatim>\<open>a == b\<close>. A timestamp never equals a plain date.\<close>

fun py_eq :: "pyval \<Rightarrow> pyval \<Rightarrow> bool" where
  "py_eq PNone b = (b = PNone)"
| "py_eq (PStr s) b = (b = PStr s)"
| "py_eq (PDate d) b = (b = PDate d)"
| "py_eq (PDateTime d) b = (b = PDateTime d)"
| "py_eq (PList xs) (PList ys) = list_all2 py_eq xs ys"
| "py_eq (PList xs) _ = False"
| "py_eq a b = (case py_num b of None \<Rightarrow> False | Some y \<Rightarrow> py_num a = Some y)"

text \<open>\<^verbatim>\<open>x in xs\<close> for a list \<open>xs\<close>.\<close>

definition py_in :: "pyval \<Rightarrow> pyval list \<Rightarrow> bool" where
  "py_in x xs = list_ex (py_eq x) xs"

text \<open>\<^verbatim>\<open>xs.index(x)\<close>; \<open>None\<close> is its ValueError.\<close>

fun py_index :: "pyval list \<Rightarrow> pyval \<Rightarrow> nat option" where
  "py_index [] x = None"
| "py_index (y # ys) x = (if py_eq y x then Some 0 else map_option Suc (py_index ys x))"

text \<open>Truth value of a Python object.\<close>

fun truthy :: "pyval \<Rightarrow> bool" where
  "truthy PNone = False"
| "truthy (PBool b) = b"
| "truthy (PInt i) = (i \<noteq> 0)"
| "truthy (PFloat r) = (r \<noteq> 0)"
| "truthy (PStr s) = (s \<noteq> [])"
| "truthy (PList xs) = (xs \<noteq> [])"
| "truthy (PDate d) = True"
| "truthy (PDateTime d) = True"

text \<open>Lists are the only unhashable values of the model.\<close>

fun hashable :: "pyval \<Rightarrow> bool" where
  "hashable (PList xs) = False"
| "hashable _ = True"

text \<open>\<^verbatim>\<open>s.strip()\<close> on ASCII text.\<close>

definition is_space :: "char \<Rightarrow> bool" where
  "is_space c = (c \<in> set [CHR '' '', CHR 0x09, CHR 0x0A, CHR 0x0B, CHR 0x0C, CHR 0x0D,
                            CHR 0x1C, CHR 0x1D, CHR 0x1E, CHR 0x1F])"

definition strip :: "string \<Rightarrow> string" where
  "strip s = rev (dropWhile is_space (rev (dropWhile is_space s)))"

text \<open>\<^verbatim>\<open>sub in s\<close> for two strings.\<close>

fun is_substring :: "string \<Rightarrow> string \<Rightarrow> bool" where
  "is_substring sub [] = (sub = [])"
| "is_substring sub (c # cs) = (take (length sub) (c # cs) = sub \<or> is_substring sub cs)"

text \<open>\<^verbatim>\<open>sep.join(xs)\<close>.\<close>

fun join :: "string \<Rightarrow> string list \<Rightarrow> string" where
  "join sep [] = []"
| "join sep [x] = x"
| "join sep (x # y # ys) = x @ sep @ join sep (y # ys)"

text \<open>Decimal text of an integer, as an f-string prints it.\<close>

definition digit_char :: "nat \<Rightarrow> char" where
  "digit_char d = ''0123456789'' ! d"

fun str_nat :: "nat \<Rightarrow> string" where
  "str_nat n = (if n < 10 then [digit_char n] else str_nat (n div 10) @ [digit_char (n mod 10)])"

declare str_nat.simps [simp del]

definition str_int :: "int \<Rightarrow> string" where
  "str_int i = (if i < 0 then CHR ''-'' # str_nat (nat (- i)) else str_nat (nat i))"

text \<open>
  \<^verbatim>\<open>int(x)\<close>: truncation towards zero on a float, a TypeError on a value that is no
  number and no text, a ValueError on text that is no integer literal.
\<close>

definition trunc :: "real \<Rightarrow> int" where
  "trunc r = (if 0 \<le> r then \<lfloor>r\<rfloor> else \<lceil>r\<rceil>)"

fun py_int :: "env \<Rightarrow> pyval \<Rightarrow> error + int" where
  "py_int E (PBool b) = Inr (if b then 1 else 0)"
| "py_int E (PInt i) = Inr i"
| "py_int E (PFloat r) = Inr (trunc r)"
| "py_int E (PStr s) = (case int_of_text E s of None \<Rightarrow> Inl ValueError | Some i \<Rightarrow> Inr i)"
| "py_int E _ = Inl TypeError"

text \<open>
  \<^verbatim>\<open>round(x, 2)\<close>: to the nearest hundredth, a tie going to the even neighbour.
\<close>

definition round_half_even :: "real \<Rightarrow> int" where
  "round_half_even r =
     (let f = \<lfloor>r\<rfloor>; d = r - of_int f
      in if d < 1 / 2 then f else if 1 / 2 < d then f + 1 else if even f then f else f + 1)"

definition round2 :: "real \<Rightarrow> real" where
  "round2 x = of_int (round_half_even (x * 100)) / 100"

text \<open>\<^verbatim>\<open>d.get(key, default)\<close>.\<close>

definition get_or :: "task \<Rightarrow> string \<Rightarrow> pyval \<Rightarrow> pyval" where
  "get_or t k dflt = (case t k of None \<Rightarrow> dflt | Some v \<Rightarrow> v)"

section \<open>Strategy table\<close>

record profile =
  w_urgency :: real
  w_importance :: real
  w_effort :: real
  w_dependency :: real
  description :: string

definition STRATEGY_WEIGHTS :: "(string \<times> profile) list" where
  "STRATEGY_WEIGHTS =
    [(''balanced'',
        \<lparr>w_urgency = 35 / 100, w_importance = 30 / 100, w_effort = 20 / 100,
         w_dependency = 15 / 100, description = ''Balanced consideration of all factors''\<rparr>),
     (''smart_balance'',
        \<lparr>w_urgency = 35 / 100, w_importance = 30 / 100, w_effort = 20 / 100,
         w_dependency = 15 / 100, description = ''Balanced consideration of all factors''\<rparr>),
     (''deadline_driven'',
        \<lparr>w_urgency = 55 / 100, w_importance = 25 / 100, w_effort = 10 / 100,
         w_dependency = 10 / 100, description = ''Prioritize tasks with approaching deadlines''\<rparr>),
     (''high_impact'',
        \<lparr>w_urgency = 20 / 100, w_importance = 50 / 100, w_effort = 15 / 100,
         w_dependency = 15 / 100, description = ''Focus on high-importance tasks first''\<rparr>),
     (''fastest_wins'',
        \<lparr>w_urgency = 20 / 100, w_importance = 20 / 100, w_effort = 45 / 100,
         w_dependency = 15 / 100, description = ''Prioritize quick tasks to build momentum''\<rparr>)]"

text \<open>\<^verbatim>\<open>STRATEGY_WEIGHTS.get(name, STRATEGY_WEIGHTS[fallback])\<close>.\<close>

definition weights_or :: "string \<Rightarrow> string \<Rightarrow> profile" where
  "weights_or name fallback =
     (case map_of STRATEGY_WEIGHTS name of
        Some p \<Rightarrow> p
      | None \<Rightarrow> the (map_of STRATEGY_WEIGHTS fallback))"

section \<open>Input normalizer\<close>

fun try_formats :: "env \<Rightarrow> string \<Rightarrow> string list \<Rightarrow> int option" where
  "try_formats E s [] = None"
| "try_formats E s (fmt # fmts) =
     (case strptime E (strip s) fmt of Some d \<Rightarrow> Some d | None \<Rightarrow> try_formats E s fmts)"

definition date_formats :: "string list" where
  "date_formats = [''%Y-%m-%d'', ''%m/%d/%Y'', ''%d-%m-%Y'', ''%Y/%m/%d'', ''%d/%m/%Y'']"

fun parse_date :: "env \<Rightarrow> pyval \<Rightarrow> int option" where
  "parse_date E PNone = None"
| "parse_date E (PDate d) = Some d"
| "parse_date E (PDateTime d) = Some d"
| "parse_date E (PStr s) = try_formats E s date_formats"
| "parse_date E _ = None"

record normalized =
  n_title :: string
  n_due_date :: "int option"
  n_importance :: int
  n_estimated_hours :: int
  n_dependencies :: "pyval list"
  n_id :: "pyval option"

text \<open>
  \<^verbatim>\<open>validate_task_data\<close>. The title is read with \<^verbatim>\<open>task.get('title', '').strip()\<close>,
  outside any \<^verbatim>\<open>try\<close>: a title that is no text has no \<^verbatim>\<open>strip\<close>, which is an
  AttributeError. The two \<^verbatim>\<open>int()\<close> conversions sit inside
  \<^verbatim>\<open>try ... except (ValueError, TypeError)\<close>.
\<close>

definition validate_task_data :: "env \<Rightarrow> task \<Rightarrow> error + (normalized \<times> string list)" where
  "validate_task_data E task =
     (case get_or task ''title'' (PStr []) of
        PStr s \<Rightarrow>
          (let stripped = strip s;
               (title, w1) =
                 (if stripped = []
                  then (''Untitled Task'', [''Missing title - defaulted to \"Untitled Task\"''])
                  else (stripped, []));
               raw_date = get_or task ''due_date'' PNone;
               due = parse_date E raw_date;
               w2 = (if truthy raw_date \<and> due = None
                     then [''Invalid date format: '' @ str_of E raw_date] else []);
               (importance, w3) =
                 (case py_int E (get_or task ''importance'' (PInt 5)) of
                    Inr i \<Rightarrow>
                      if i < 1 then (1, [''Importance below 1 - clamped to 1''])
                      else if i > 10 then (10, [''Importance above 10 - clamped to 10''])
                      else (i, [])
                  | Inl _ \<Rightarrow> (5, [''Invalid importance value - defaulted to 5'']));
               (hours, w4) =
                 (case py_int E (get_or task ''estimated_hours'' (PInt 2)) of
                    Inr h \<Rightarrow>
                      if h \<le> 0
                      then (if h \<noteq> 0 then \<bar>h\<bar> else 2, [''Invalid hours - converted to positive''])
                      else (h, [])
                  | Inl _ \<Rightarrow> (2, [''Invalid estimated_hours - defaulted to 2'']));
               (deps, w5) =
                 (case get_or task ''dependencies'' (PList []) of
                    PList xs \<Rightarrow> (xs, [])
                  | _ \<Rightarrow> ([], [''Invalid dependencies format - defaulted to empty list'']))
           in Inr (\<lparr>n_title = title, n_due_date = due, n_importance = importance,
                    n_estimated_hours = hours, n_dependencies = deps, n_id = task ''id''\<rparr>,
                   w1 @ w2 @ w3 @ w4 @ w5))
      | _ \<Rightarrow> Inl AttributeError)"

section \<open>Factor scorers\<close>

definition calculate_urgency_score :: "env \<Rightarrow> int option \<Rightarrow> real \<times> string" where
  "calculate_urgency_score E due_date =
     (case due_date of
        None \<Rightarrow> (30, ''No deadline set - medium urgency assumed'')
      | Some due \<Rightarrow>
          (let days_until = due - today E in
           if days_until < 0 then
             (let days_overdue = \<bar>days_until\<bar> in
              (min 100 (100 + of_int days_overdue * (1 / 2)),
               ''WARNING: OVERDUE by '' @ str_int days_overdue @ '' day(s)!''))
           else if days_until = 0 then (95, ''Due TODAY - urgent!'')
           else if days_until = 1 then (85, ''Due tomorrow - very urgent'')
           else if days_until \<le> 3 then
             (80 - of_int ((days_until - 1) * 5),
              ''Due in '' @ str_int days_until @ '' days - urgent'')
           else if days_until \<le> 7 then
             (65 - of_int ((days_until - 3) * 6),
              ''Due in '' @ str_int days_until @ '' days - approaching'')
           else if days_until \<le> 14 then
             (35 - of_int ((days_until - 7) * 2),
              ''Due in '' @ str_int days_until @ '' days'')
           else if days_until \<le> 30 then
             (max 10 (20 - of_int (days_until - 14) * (1 / 2)),
              ''Due in '' @ str_int days_until @ '' days - not urgent'')
           else (5, ''Due in '' @ str_int days_until @ '' days - low urgency'')))"

definition calculate_importance_score :: "int \<Rightarrow> real \<times> string" where
  "calculate_importance_score importance =
     (let base_score = importance * 10;
          base_score =
            (if importance \<ge> 8
             then (let bonus = (importance - 7) ^ 2 * 3 in min 100 (base_score + bonus))
             else base_score);
          desc =
            (if importance \<ge> 9 then ''Critical priority''
             else if importance \<ge> 7 then ''High priority''
             else if importance \<ge> 5 then ''Medium priority''
             else if importance \<ge> 3 then ''Low priority''
             else ''Minimal priority'')
      in (of_int base_score, desc))"

definition calculate_effort_score :: "int \<Rightarrow> real \<times> string" where
  "calculate_effort_score estimated_hours =
     (if estimated_hours < 1 then (100, ''Super quick task!'')
      else if estimated_hours \<le> 2 then
        (85 - of_int ((estimated_hours - 1) * 10),
         ''Quick win ('' @ str_int estimated_hours @ ''h)'')
      else if estimated_hours \<le> 4 then
        (75 - of_int ((estimated_hours - 2) * 10),
         ''Moderate effort ('' @ str_int estimated_hours @ ''h)'')
      else if estimated_hours \<le> 8 then
        (55 - of_int ((estimated_hours - 4) * 5),
         ''Significant effort ('' @ str_int estimated_hours @ ''h)'')
      else
        (max 10 (28 - of_int ((estimated_hours - 8) * 2)),
         ''Major effort ('' @ str_int estimated_hours @ ''h)''))"

text \<open>
  \<^verbatim>\<open>x in c\<close> for an arbitrary container \<open>c\<close>: list membership, substring test on text
  (a TypeError unless \<open>x\<close> is text too), a TypeError on anything that is no container.
\<close>

fun py_contains :: "pyval \<Rightarrow> pyval \<Rightarrow> error + bool" where
  "py_contains (PList xs) x = Inr (py_in x xs)"
| "py_contains (PStr s) (PStr sub) = Inr (is_substring sub s)"
| "py_contains _ _ = Inl TypeError"

text \<open>
  The loop over \<^verbatim>\<open>all_tasks\<close> that counts the tasks whose raw dependency value
  contains \<open>task_id\<close>; the batch is the raw one, so that value need not be a list.
\<close>

fun count_blocked :: "pyval \<Rightarrow> task list \<Rightarrow> nat \<Rightarrow> error + nat" where
  "count_blocked task_id [] blocked_count = Inr blocked_count"
| "count_blocked task_id (t # ts) blocked_count =
     (case py_contains (get_or t ''dependencies'' (PList [])) task_id of
        Inl e \<Rightarrow> Inl e
      | Inr b \<Rightarrow> count_blocked task_id ts (if b then blocked_count + 1 else blocked_count))"

definition calculate_dependency_score ::
    "pyval \<Rightarrow> pyval list \<Rightarrow> task list \<Rightarrow> pyval list option \<Rightarrow> error + (real \<times> string)" where
  "calculate_dependency_score task_id dependencies all_tasks completed_ids =
     (let completed = (case completed_ids of None \<Rightarrow> [] | Some c \<Rightarrow> c);
          score = 70;
          (score, explanations) =
            (if dependencies \<noteq> [] then
               (let unmet = filter (\<lambda>d. \<not> py_in d completed) dependencies in
                if unmet \<noteq> [] then
                  (score - real (min 50 (length unmet * 20)),
                   [''Blocked by '' @ str_nat (length unmet) @ '' task(s)''])
                else (score + 10, [''All dependencies complete'']))
             else (score, []))
      in if task_id \<noteq> PNone then
           (case count_blocked task_id all_tasks 0 of
              Inl e \<Rightarrow> Inl e
            | Inr blocked_count \<Rightarrow>
                (let (score, explanations) =
                       (if blocked_count > 0
                        then (score + real (min 30 (blocked_count * 15)),
                              explanations @
                                [''Blocks '' @ str_nat blocked_count @ '' other task(s)''])
                        else (score, explanations))
                 in Inr (max 0 (min 100 score),
                         if explanations \<noteq> [] then join ''; '' explanations
                         else ''No dependencies'')))
         else Inr (max 0 (min 100 score),
                   if explanations \<noteq> [] then join ''; '' explanations
                   else ''No dependencies''))"

section \<open>Circular dependency detection\<close>

text \<open>
  A Python \<^verbatim>\<open>dict\<close> keyed by identifiers, in insertion order: storing under a key
  that is already there replaces the value and keeps the key's place. A Python
  \<^verbatim>\<open>set\<close> of identifiers is a list without repetition.
\<close>

fun dict_set :: "(pyval \<times> 'v) list \<Rightarrow> pyval \<Rightarrow> 'v \<Rightarrow> (pyval \<times> 'v) list" where
  "dict_set [] k v = [(k, v)]"
| "dict_set ((k', v') # m) k v =
     (if py_eq k' k then (k', v) # m else (k', v') # dict_set m k v)"

fun dict_get :: "(pyval \<times> 'v) list \<Rightarrow> pyval \<Rightarrow> 'v option" where
  "dict_get [] k = None"
| "dict_get ((k', v') # m) k = (if py_eq k' k then Some v' else dict_get m k)"

definition set_add :: "pyval list \<Rightarrow> pyval \<Rightarrow> pyval list" where
  "set_add s x = (if py_in x s then s else s @ [x])"

text \<open>\<^verbatim>\<open>s.remove(x)\<close>, a KeyError when \<open>x\<close> is not in the set.\<close>

definition set_remove :: "pyval list \<Rightarrow> pyval \<Rightarrow> error + pyval list" where
  "set_remove s x = (if py_in x s then Inr (filter (\<lambda>y. \<not> py_eq y x) s) else Inl KeyError)"

text \<open>The elements a \<^verbatim>\<open>for\<close> loop draws from a value.\<close>

fun py_iter :: "pyval \<Rightarrow> error + pyval list" where
  "py_iter (PList xs) = Inr xs"
| "py_iter (PStr s) = Inr (map (\<lambda>c. PStr [c]) s)"
| "py_iter _ = Inl TypeError"

text \<open>
  The comprehension \<^verbatim>\<open>{t.get('id'): t for t in tasks if t.get('id') is not None}\<close>;
  an unhashable identifier is a TypeError.
\<close>

fun build_task_map :: "task list \<Rightarrow> (pyval \<times> task) list \<Rightarrow> error + (pyval \<times> task) list" where
  "build_task_map [] m = Inr m"
| "build_task_map (t # ts) m =
     (let i = get_or t ''id'' PNone in
      if i \<noteq> PNone then
        (if hashable i then build_task_map ts (dict_set m i t) else Inl TypeError)
      else build_task_map ts m)"

record dfs_state =
  visited :: "pyval list"
  rec_stack :: "pyval list"

text \<open>
  The nested function \<^verbatim>\<open>has_cycle(task_id, path)\<close> with the two sets it closes over
  passed as state, and its \<^verbatim>\<open>for dep_id in ...\<close> loop as \<open>has_cycle_deps\<close>. The first
  argument is the number of frames left before the interpreter's RecursionError; every
  call of \<open>has_cycle\<close> takes one. A found cycle is returned at once, on every level,
  before \<^verbatim>\<open>rec_stack.remove(task_id)\<close> is reached. The returned path is never empty, so
  the tests \<^verbatim>\<open>if result\<close> and \<^verbatim>\<open>if cycle\<close> are tests for \<open>Some\<close>.
\<close>

fun has_cycle ::
    "nat \<Rightarrow> (pyval \<times> task) list \<Rightarrow> pyval \<Rightarrow> pyval list \<Rightarrow> dfs_state
       \<Rightarrow> error + (pyval list option \<times> dfs_state)"
and has_cycle_deps ::
    "nat \<Rightarrow> (pyval \<times> task) list \<Rightarrow> pyval list \<Rightarrow> pyval list \<Rightarrow> dfs_state
       \<Rightarrow> error + (pyval list option \<times> dfs_state)" where
  "has_cycle 0 task_map task_id path st = Inl RecursionError"
| "has_cycle (Suc depth) task_map task_id path st =
     (if \<not> hashable task_id then Inl TypeError
      else if py_in task_id (rec_stack st) then
        (case py_index path task_id of
           None \<Rightarrow> Inl ValueError
         | Some i \<Rightarrow> Inr (Some (drop i path @ [task_id]), st))
      else if py_in task_id (visited st) then Inr (None, st)
      else
        (let st = st\<lparr>visited := set_add (visited st) task_id,
                      rec_stack := set_add (rec_stack st) task_id\<rparr>
         in case (case dict_get task_map task_id of
                    None \<Rightarrow> Inr (None, st)
                  | Some task \<Rightarrow>
                      (case py_iter (get_or task ''dependencies'' (PList [])) of
                         Inl e \<Rightarrow> Inl e
                       | Inr deps \<Rightarrow> has_cycle_deps depth task_map deps (path @ [task_id]) st))
            of
              Inl e \<Rightarrow> Inl e
            | Inr (Some cycle, st) \<Rightarrow> Inr (Some cycle, st)
            | Inr (None, st) \<Rightarrow>
                (case set_remove (rec_stack st) task_id of
                   Inl e \<Rightarrow> Inl e
                 | Inr rs \<Rightarrow> Inr (None, st\<lparr>rec_stack := rs\<rparr>))))"
| "has_cycle_deps depth task_map [] path st = Inr (None, st)"
| "has_cycle_deps depth task_map (dep_id # deps) path st =
     (case has_cycle depth task_map dep_id path st of
        Inl e \<Rightarrow> Inl e
      | Inr (Some cycle, st) \<Rightarrow> Inr (Some cycle, st)
      | Inr (None, st) \<Rightarrow> has_cycle_deps depth task_map deps path st)"

record cycle_warning =
  cw_type :: string
  cw_message :: string
  cw_tasks :: "pyval list"

text \<open>The separator of the message, a right arrow between two spaces, in UTF-8.\<close>

definition arrow :: string where
  "arrow = [CHR '' '', CHR 0xE2, CHR 0x86, CHR 0x92, CHR '' '']"

text \<open>The loop \<^verbatim>\<open>for task_id in task_map\<close> of \<^verbatim>\<open>detect_circular_dependencies\<close>.\<close>

fun detect_loop ::
    "env \<Rightarrow> (pyval \<times> task) list \<Rightarrow> pyval list \<Rightarrow> dfs_state \<Rightarrow> cycle_warning list
       \<Rightarrow> error + cycle_warning list" where
  "detect_loop E task_map [] st warnings = Inr warnings"
| "detect_loop E task_map (task_id # ids) st warnings =
     (if \<not> py_in task_id (visited st) then
        (case has_cycle (recursion_limit E) task_map task_id [] st of
           Inl e \<Rightarrow> Inl e
         | Inr (Some cycle, st) \<Rightarrow>
             detect_loop E task_map ids st
               (warnings @
                  [\<lparr>cw_type = ''circular_dependency'',
                    cw_message = ''Circular dependency detected: ''
                                  @ join arrow (map (str_of E) cycle),
                    cw_tasks = cycle\<rparr>])
         | Inr (None, st) \<Rightarrow> detect_loop E task_map ids st warnings)
      else detect_loop E task_map ids st warnings)"

definition detect_circular_dependencies :: "env \<Rightarrow> task list \<Rightarrow> error + cycle_warning list" where
  "detect_circular_dependencies E tasks =
     (case build_task_map tasks [] of
        Inl e \<Rightarrow> Inl e
      | Inr task_map \<Rightarrow>
          detect_loop E task_map (map fst task_map) \<lparr>visited = [], rec_stack = []\<rparr> [])"

section \<open>Task scorer\<close>

datatype priority = CRITICAL | HIGH | MEDIUM | LOW | MINIMAL

record score_breakdown =
  sb_urgency :: real
  sb_importance :: real
  sb_effort :: real
  sb_dependency :: real

record explanations =
  ex_urgency :: string
  ex_importance :: string
  ex_effort :: string
  ex_dependency :: string

text \<open>
  The result dictionary of \<^verbatim>\<open>calculate_task_score\<close>. The keys \<^verbatim>\<open>id\<close> and
  \<^verbatim>\<open>warnings\<close> are present only in some results, and \<^verbatim>\<open>rank\<close> is added by the batch
  analyzer, so the three are optional fields.
\<close>

record scored_task =
  st_title :: string
  st_due_date :: "string option"
  st_importance :: int
  st_estimated_hours :: int
  st_dependencies :: "pyval list"
  st_id :: "pyval option"
  st_score :: real
  st_priority_level :: priority
  st_score_breakdown :: score_breakdown
  st_explanations :: explanations
  st_strategy_used :: string
  st_warnings :: "string list option"
  st_rank :: "nat option"

definition priority_of :: "real \<Rightarrow> priority" where
  "priority_of final_score =
     (if final_score \<ge> 75 then CRITICAL
      else if final_score \<ge> 60 then HIGH
      else if final_score \<ge> 40 then MEDIUM
      else if final_score \<ge> 25 then LOW
      else MINIMAL)"

definition calculate_task_score ::
    "env \<Rightarrow> task \<Rightarrow> task list option \<Rightarrow> string \<Rightarrow> pyval list option \<Rightarrow> error + scored_task" where
  "calculate_task_score E task all_tasks strategy completed_ids =
     (let all_tasks = (case all_tasks of None \<Rightarrow> [] | Some ts \<Rightarrow> ts);
          completed_ids = (case completed_ids of None \<Rightarrow> [] | Some c \<Rightarrow> c)
      in case validate_task_data E task of
           Inl e \<Rightarrow> Inl e
         | Inr (normalized, data_warnings) \<Rightarrow>
             (let weights = weights_or strategy ''smart_balance'';
                  (urgency_score, urgency_exp) = calculate_urgency_score E (n_due_date normalized);
                  (importance_score, importance_exp) =
                    calculate_importance_score (n_importance normalized);
                  (effort_score, effort_exp) =
                    calculate_effort_score (n_estimated_hours normalized)
              in case calculate_dependency_score
                        (case n_id normalized of None \<Rightarrow> PNone | Some i \<Rightarrow> i)
                        (n_dependencies normalized) all_tasks (Some completed_ids) of
                   Inl e \<Rightarrow> Inl e
                 | Inr (dependency_score, dependency_exp) \<Rightarrow>
                     (let final_score =
                            urgency_score * w_urgency weights
                            + importance_score * w_importance weights
                            + effort_score * w_effort weights
                            + dependency_score * w_dependency weights
                      in Inr \<lparr>st_title = n_title normalized,
                              st_due_date = map_option (isoformat E) (n_due_date normalized),
                              st_importance = n_importance normalized,
                              st_estimated_hours = n_estimated_hours normalized,
                              st_dependencies = n_dependencies normalized,
                              st_id = n_id normalized,
                              st_score = round2 final_score,
                              st_priority_level = priority_of final_score,
                              st_score_breakdown =
                                \<lparr>sb_urgency = round2 urgency_score,
                                 sb_importance = round2 importance_score,
                                 sb_effort = round2 effort_score,
                                 sb_dependency = round2 dependency_score\<rparr>,
                              st_explanations =
                                \<lparr>ex_urgency = urgency_exp, ex_importance = importance_exp,
                                 ex_effort = effort_exp, ex_dependency = dependency_exp\<rparr>,
                              st_strategy_used = strategy,
                              st_warnings =
                                (if data_warnings \<noteq> [] then Some data_warnings else None),
                              st_rank = None\<rparr>)))"

section \<open>Batch analyzer\<close>

text \<open>The loop that scores every task of the batch against the whole raw batch.\<close>

fun score_all ::
    "env \<Rightarrow> task list \<Rightarrow> task list \<Rightarrow> string \<Rightarrow> pyval list option \<Rightarrow> error + scored_task list" where
  "score_all E [] all_tasks strategy completed_ids = Inr []"
| "score_all E (t # ts) all_tasks strategy completed_ids =
     (case calculate_task_score E t (Some all_tasks) strategy completed_ids of
        Inl e \<Rightarrow> Inl e
      | Inr scored \<Rightarrow>
          (case score_all E ts all_tasks strategy completed_ids of
             Inl e \<Rightarrow> Inl e
           | Inr rest \<Rightarrow> Inr (scored # rest)))"

text \<open>
  \<^verbatim>\<open>xs.sort(key=..., reverse=True)\<close>. The interpreter reverses the list, sorts it
  stably in ascending order and reverses it again; any stable sort gives the same list.
\<close>

definition sort_reverse :: "('a \<Rightarrow> real) \<Rightarrow> 'a list \<Rightarrow> 'a list" where
  "sort_reverse key xs = rev (sort_key key (rev xs))"

text \<open>\<^verbatim>\<open>for i, task in enumerate(scored_tasks, 1): task['rank'] = i\<close>.\<close>

fun add_rank :: "nat \<Rightarrow> scored_task list \<Rightarrow> scored_task list" where
  "add_rank i [] = []"
| "add_rank i (t # ts) = t\<lparr>st_rank := Some i\<rparr> # add_rank (Suc i) ts"

text \<open>\<^verbatim>\<open>by_priority[level] = by_priority.get(level, 0) + 1\<close>, in insertion order.\<close>

fun bump :: "(priority \<times> nat) list \<Rightarrow> priority \<Rightarrow> (priority \<times> nat) list" where
  "bump [] level = [(level, 1)]"
| "bump ((l, n) # m) level = (if l = level then (l, n + 1) # m else (l, n) # bump m level)"

definition count_of :: "(priority \<times> nat) list \<Rightarrow> priority \<Rightarrow> nat" where
  "count_of m level = (case map_of m level of None \<Rightarrow> 0 | Some n \<Rightarrow> n)"

record summary_full =
  sm_total :: nat
  sm_by_priority :: "(priority \<times> nat) list"
  sm_critical_count :: nat
  sm_high_count :: nat
  sm_overdue_count :: nat
  sm_warnings :: "cycle_warning list"
  sm_strategy :: string
  sm_strategy_description :: string

datatype summary = EmptySummary nat string | Summary summary_full

record batch_result =
  br_tasks :: "scored_task list"
  br_summary :: summary
  br_warnings :: "cycle_warning list"

text \<open>
  \<^verbatim>\<open>analyze_tasks\<close>. After ranking, the function builds a first summary that reads
  \<^verbatim>\<open>STRATEGY_WEIGHTS[strategy]['description']\<close>, a subscript with no default and so a
  KeyError on an unknown name; that summary is then overwritten by the second one, which
  reads the description through \<^verbatim>\<open>.get(strategy, STRATEGY_WEIGHTS['balanced'])\<close>.
\<close>

definition analyze_tasks ::
    "env \<Rightarrow> task list \<Rightarrow> string \<Rightarrow> pyval list option \<Rightarrow> error + batch_result" where
  "analyze_tasks E tasks strategy completed_ids =
     (if tasks = [] then
        Inr \<lparr>br_tasks = [], br_summary = EmptySummary 0 ''No tasks to analyze'',
             br_warnings = []\<rparr>
      else
        (case detect_circular_dependencies E tasks of
           Inl e \<Rightarrow> Inl e
         | Inr dep_warnings \<Rightarrow>
             (case score_all E tasks tasks strategy completed_ids of
                Inl e \<Rightarrow> Inl e
              | Inr scored_tasks \<Rightarrow>
                  (let scored_tasks = add_rank 1 (sort_reverse st_score scored_tasks);
                       total = length scored_tasks;
                       overdue =
                         length (filter (\<lambda>t. is_substring ''OVERDUE''
                                                 (ex_urgency (st_explanations t))) scored_tasks)
                   in case map_of STRATEGY_WEIGHTS strategy of
                        None \<Rightarrow> Inl KeyError
                      | Some first_profile \<Rightarrow>
                          (let by_priority =
                                 fold (\<lambda>t m. bump m (st_priority_level t)) scored_tasks []
                           in Inr \<lparr>br_tasks = scored_tasks,
                                   br_summary = Summary
                                     \<lparr>sm_total = total,
                                      sm_by_priority = by_priority,
                                      sm_critical_count = count_of by_priority CRITICAL,
                                      sm_high_count = count_of by_priority HIGH,
                                      sm_overdue_count = overdue,
                                      sm_warnings = dep_warnings,
                                      sm_strategy = strategy,
                                      sm_strategy_description =
                                        description (weights_or strategy ''balanced'')\<rparr>,
                                   br_warnings = dep_warnings\<rparr>)))))"

section \<open>Sample inputs\<close>

text \<open>
  Concrete inputs on which the functions are evaluated below. None of them holds text
  that has to be read as a number or a date, so the library conversions of the sample
  environment are never consulted for them; the sample environment answers every such
  conversion with a failure and prints every value and date as the empty text.
\<close>

definition sample_env :: env where
  "sample_env =
     \<lparr>today = 0, recursion_limit = 1000, int_of_text = (\<lambda>s. None),
      strptime = (\<lambda>s fmt. None), str_of = (\<lambda>v. []), isoformat = (\<lambda>d. [])\<rparr>"

text \<open>\<^verbatim>\<open>{'title': 'X'}\<close>\<close>

definition plain_task :: task where
  "plain_task = [''title'' \<mapsto> PStr ''X'']"

text \<open>\<^verbatim>\<open>{'title': 5}\<close>\<close>

definition numeric_title_task :: task where
  "numeric_title_task = [''title'' \<mapsto> PInt 5]"

text \<open>
  Tasks 1 and 2 depend on each other; task 3 depends on task 1:
  \<^verbatim>\<open>[{'id': 1, 'dependencies': [2]}, {'id': 2, 'dependencies': [1]},
    {'id': 3, 'dependencies': [1]}]\<close>
\<close>

definition cycle_batch :: "task list" where
  "cycle_batch =
     [[''id'' \<mapsto> PInt 1, ''dependencies'' \<mapsto> PList [PInt 2]],
      [''id'' \<mapsto> PInt 2, ''dependencies'' \<mapsto> PList [PInt 1]],
      [''id'' \<mapsto> PInt 3, ''dependencies'' \<mapsto> PList [PInt 1]]]"

text \<open>
  \<^verbatim>\<open>{'title': 'X', 'due_date': date.today(), 'importance': 9, 'estimated_hours': 1,
    'dependencies': []}\<close>
\<close>

definition task_X :: "env \<Rightarrow> task" where
  "task_X E =
     [''title'' \<mapsto> PStr ''X'', ''due_date'' \<mapsto> PDate (today E), ''importance'' \<mapsto> PInt 9,
      ''estimated_hours'' \<mapsto> PInt 1, ''dependencies'' \<mapsto> PList []]"

text \<open>A task that lists itself as a dependency: \<^verbatim>\<open>{'id': 1, 'dependencies': [1]}\<close>\<close>

definition self_dependent_task :: task where
  "self_dependent_task = [''id'' \<mapsto> PInt 1, ''dependencies'' \<mapsto> PList [PInt 1]]"

text \<open>
  Three tasks without dates, the first and the last with the same importance:
  \<^verbatim>\<open>[{'title': 'A', 'importance': 5}, {'title': 'B', 'importance': 9},
    {'title': 'C', 'importance': 5}]\<close>
\<close>

definition tie_batch :: "task list" where
  "tie_batch =
     [[''title'' \<mapsto> PStr ''A'', ''importance'' \<mapsto> PInt 5],
      [''title'' \<mapsto> PStr ''B'', ''importance'' \<mapsto> PInt 9],
      [''title'' \<mapsto> PStr ''C'', ''importance'' \<mapsto> PInt 5]]"

section \<open>Evaluation lemmas\<close>

lemma str_nat_digit: "n < 10 \<Longrightarrow> str_nat n = [digit_char n]"
  by (simp add: str_nat.simps)

lemma weights_or_unknown:
  "map_of STRATEGY_WEIGHTS s = None \<Longrightarrow> weights_or s fb = the (map_of STRATEGY_WEIGHTS fb)"
  by (simp add: weights_or_def)

lemma weights_or_smart_balance:
  "weights_or ''smart_balance'' fb =
     \<lparr>w_urgency = 35 / 100, w_importance = 30 / 100, w_effort = 20 / 100,
      w_dependency = 15 / 100, description = ''Balanced consideration of all factors''\<rparr>"
  by (simp add: weights_or_def STRATEGY_WEIGHTS_def)

lemma round2_hundredths: "round2 (of_int k / 100) = of_int k / 100"
  by (simp add: round2_def round_half_even_def Let_def)

section \<open>Strategy fallback\<close>

text \<open>
  C1. For a non-empty batch and a strategy name that is not in the strategy table, the
  claim has \<open>analyze_tasks\<close> fall back to the default profile and return a batch result.
  On the one-task batch \<^verbatim>\<open>[{'title': 'X'}]\<close> with the strategy \<^verbatim>\<open>'bogus'\<close> the function
  scores and ranks the task and then fails with a KeyError, on the subscript
  \<^verbatim>\<open>STRATEGY_WEIGHTS[strategy]\<close> of its first summary.
\<close>

theorem analyze_tasks_unknown_strategy_KeyError:
  "analyze_tasks E [plain_task] ''bogus'' None = Inl KeyError"
  by (simp add: analyze_tasks_def plain_task_def detect_circular_dependencies_def get_or_def
      Let_def calculate_task_score_def validate_task_data_def STRATEGY_WEIGHTS_def
      calculate_dependency_score_def split: prod.splits)

text \<open>
  The same holds on every non-empty batch: with an unknown strategy name the function
  returns no result at all.
\<close>

lemma analyze_tasks_unknown_strategy_fails:
  assumes "tasks \<noteq> []" and "map_of STRATEGY_WEIGHTS strategy = None"
  shows "analyze_tasks E tasks strategy completed_ids \<noteq> Inr res"
  using assms by (simp add: analyze_tasks_def Let_def split: sum.splits)

section \<open>Normalizer\<close>

text \<open>
  C2. The claim has \<open>validate_task_data\<close> return a normalized task and its warnings for
  every raw task, whatever the types of its field values, a title that is no text
  included. On \<^verbatim>\<open>{'title': 5}\<close> the function fails with an AttributeError instead: the
  number has no \<^verbatim>\<open>strip\<close>.
\<close>

theorem validate_task_data_numeric_title_AttributeError:
  "validate_task_data E numeric_title_task = Inl AttributeError"
  by (simp add: validate_task_data_def numeric_title_task_def get_or_def)

section \<open>Cycle detection\<close>

text \<open>
  C3. The claim has \<open>detect_circular_dependencies\<close> return its list of cycle warnings on
  every batch whose dependency fields are lists of identifiers, also when further tasks
  depend on a node of a cycle that was already reported. On the batch of tasks 1 and 2
  depending on each other and task 3 depending on task 1, with any recursion limit of three
  frames or more, the function fails with a ValueError: the reported cycle left 1 and 2 in
  \<^verbatim>\<open>rec_stack\<close>, so the visit of task 3 finds its dependency 1 there and looks it up in a
  path that does not hold it.
\<close>

theorem detect_circular_dependencies_stale_stack_ValueError:
  "detect_circular_dependencies (E\<lparr>recursion_limit := Suc (Suc (Suc n))\<rparr>) cycle_batch
     = Inl ValueError"
  by (simp add: detect_circular_dependencies_def cycle_batch_def get_or_def set_add_def
      set_remove_def py_in_def Let_def)

section \<open>The concrete scoring scenario\<close>

text \<open>
  C4, as amended. The task \<^verbatim>\<open>{title: "X", due_date: today, importance: 9,
  estimated_hours: 1, dependencies: []}\<close>, scored under \<^verbatim>\<open>smart_balance\<close> with no
  completed ids, alone or against the batch that holds only itself, gets the factor scores
  urgency 95, importance 100, effort 85 and dependency 70, the final score 90.75 and the
  priority level CRITICAL. One hour of effort falls in the branch of one to two hours,
  which scores 85; only less than one hour scores 100.
\<close>

theorem calculate_task_score_scenario:
  "calculate_task_score E (task_X E) None ''smart_balance'' None =
     Inr \<lparr>st_title = ''X'', st_due_date = Some (isoformat E (today E)), st_importance = 9,
          st_estimated_hours = 1, st_dependencies = [], st_id = None,
          st_score = 9075 / 100, st_priority_level = CRITICAL,
          st_score_breakdown =
            \<lparr>sb_urgency = 95, sb_importance = 100, sb_effort = 85, sb_dependency = 70\<rparr>,
          st_explanations =
            \<lparr>ex_urgency = ''Due TODAY - urgent!'', ex_importance = ''Critical priority'',
             ex_effort = ''Quick win (1h)'', ex_dependency = ''No dependencies''\<rparr>,
          st_strategy_used = ''smart_balance'', st_warnings = None, st_rank = None\<rparr>
   \<and> calculate_task_score E (task_X E) (Some [task_X E]) ''smart_balance'' None =
       calculate_task_score E (task_X E) None ''smart_balance'' None"
  by (simp add: calculate_task_score_def task_X_def validate_task_data_def get_or_def Let_def
      strip_def is_space_def weights_or_smart_balance calculate_urgency_score_def
      calculate_importance_score_def calculate_effort_score_def calculate_dependency_score_def
      str_int_def str_nat_digit digit_char_def priority_of_def round2_def round_half_even_def)

text \<open>
  The claim as it was stated, with the effort score 100 and the final score 93.75, fails on
  the code.
\<close>

theorem calculate_task_score_scenario_counterexample:
  "sb_effort (st_score_breakdown
      (projr (calculate_task_score sample_env (task_X sample_env) None ''smart_balance'' None)))
     \<noteq> 100
   \<and> st_score (projr (calculate_task_score sample_env (task_X sample_env) None ''smart_balance'' None))
     \<noteq> 9375 / 100"
  by (simp add: calculate_task_score_def task_X_def validate_task_data_def get_or_def Let_def
      strip_def is_space_def weights_or_smart_balance calculate_urgency_score_def
      calculate_importance_score_def calculate_effort_score_def calculate_dependency_score_def
      str_int_def str_nat_digit digit_char_def priority_of_def round2_def round_half_even_def
      sample_env_def)

section \<open>Factor scorers\<close>

text \<open>
  C5. For every overdue due date, that is, whenever the number of days until the due date
  is negative, the urgency score is exactly 100, however many days the task is overdue:
  the score is the smaller of 100 and 100 plus half a point per overdue day, and the
  smaller of the two is always 100.
\<close>

theorem calculate_urgency_score_overdue:
  assumes "due - today E < 0"
  shows "fst (calculate_urgency_score E (Some due))
           = min 100 (100 + of_int \<bar>due - today E\<bar> * (1 / 2))
       \<and> fst (calculate_urgency_score E (Some due)) = 100"
  using assms by (simp add: calculate_urgency_score_def Let_def)

theorem calculate_urgency_score_overdue_witness:
  "(-5) - today sample_env < 0
   \<and> fst (calculate_urgency_score sample_env (Some (-5))) = 100"
  using calculate_urgency_score_overdue [of "-5" sample_env]
  by (simp add: sample_env_def)

lemma calculate_importance_score_low:
  "i \<le> 7 \<Longrightarrow> fst (calculate_importance_score i) = of_int (i * 10)"
  by (simp add: calculate_importance_score_def Let_def)

lemma calculate_importance_score_high:
  "fst (calculate_importance_score 8) = 83"
  "fst (calculate_importance_score 9) = 100"
  "fst (calculate_importance_score 10) = 100"
  by (simp_all add: calculate_importance_score_def Let_def)

text \<open>
  C6, as amended. For all importance ratings \<open>i1 < i2\<close> in the range from 1 to 10 the
  importance score of \<open>i1\<close> is at most that of \<open>i2\<close>, and it is strictly smaller whenever
  \<open>i1\<close> is at most 8. The ratings 9 and 10 both score 100, because the bonus is capped
  at 100.
\<close>

theorem calculate_importance_score_monotone:
  assumes "1 \<le> i1" and "i1 < i2" and "i2 \<le> 10"
  shows "fst (calculate_importance_score i1) \<le> fst (calculate_importance_score i2)
       \<and> (i1 \<le> 8 \<longrightarrow>
            fst (calculate_importance_score i1) < fst (calculate_importance_score i2))"
proof -
  consider "i2 \<le> 7" | "i2 = 8" | "i2 = 9" | "i2 = 10"
    using assms by linarith
  then show ?thesis
  proof cases
    case 1
    with assms show ?thesis
      by (simp add: calculate_importance_score_low)
  next
    case 2
    with assms show ?thesis
      by (simp add: calculate_importance_score_low calculate_importance_score_high)
  next
    case 3
    from 3 assms have "i1 \<le> 7 \<or> i1 = 8" by linarith
    with 3 show ?thesis
      by (auto simp: calculate_importance_score_low calculate_importance_score_high)
  next
    case 4
    from 4 assms have "i1 \<le> 7 \<or> i1 = 8 \<or> i1 = 9" by linarith
    with 4 show ?thesis
      by (auto simp: calculate_importance_score_low calculate_importance_score_high)
  qed
qed

text \<open>
  The claim as it was stated, with a strict inequality for every pair above the bonus
  threshold, fails at the pair 9 and 10.
\<close>

theorem calculate_importance_score_strict_counterexample:
  "(8::int) \<le> 9 \<and> (9::int) < 10 \<and> (10::int) \<le> 10
   \<and> \<not> fst (calculate_importance_score 9) < fst (calculate_importance_score 10)"
  by (simp add: calculate_importance_score_def Let_def)

theorem calculate_importance_score_monotone_witness:
  "(1::int) \<le> 8 \<and> (8::int) < 9 \<and> (9::int) \<le> 10
   \<and> fst (calculate_importance_score 8) < fst (calculate_importance_score 9)"
  using calculate_importance_score_monotone [of 8 9] by simp

text \<open>
  C7. The claim has the blocker bonus count only the other tasks of the batch, the task
  itself excluded. On the batch that holds the single task
  \<^verbatim>\<open>{'id': 1, 'dependencies': [1]}\<close> the loop over the batch counts the task itself: the
  score is 70 - 20 + 15 = 65 and the explanation reads "Blocks 1 other task(s)", although
  the batch holds no other task.
\<close>

theorem calculate_dependency_score_counts_itself:
  "calculate_dependency_score (PInt 1) [PInt 1] [self_dependent_task] None
     = Inr (65, ''Blocked by 1 task(s); Blocks 1 other task(s)'')"
  by (simp add: calculate_dependency_score_def self_dependent_task_def get_or_def py_in_def
      Let_def str_nat_digit digit_char_def)

section \<open>Strategy table\<close>

text \<open>
  C9. For every profile of the strategy table the four weights sum to 1 within the
  tolerance of one part in a thousand million (they sum to exactly 1, the weights taken
  as the decimal numbers the table is written with), and the names \<^verbatim>\<open>balanced\<close> and
  \<^verbatim>\<open>smart_balance\<close> have the same weights and resolve to the same profile.
\<close>

theorem STRATEGY_WEIGHTS_sum_and_alias:
  "list_all
     (\<lambda>(name, p). \<bar>w_urgency p + w_importance p + w_effort p + w_dependency p - 1\<bar> \<le> 1 / 10 ^ 9)
     STRATEGY_WEIGHTS
   \<and> map_of STRATEGY_WEIGHTS ''balanced'' = map_of STRATEGY_WEIGHTS ''smart_balance''
   \<and> map_of STRATEGY_WEIGHTS ''balanced'' \<noteq> None
   \<and> weights_or ''balanced'' fb = weights_or ''smart_balance'' fb"
  by (simp add: STRATEGY_WEIGHTS_def weights_or_def)

section \<open>Reported strategy name\<close>

text \<open>
  C10. For every task and every strategy string \<open>s\<close>, a scored result of
  \<open>calculate_task_score\<close> carries \<open>s\<close> itself as its \<open>strategy_used\<close>. This
  includes a string that is no known strategy name: the result is then the one computed
  with the \<^verbatim>\<open>smart_balance\<close> weights, in every field but the reported name, so the name
  reported can differ from the profile that determined the score.
\<close>

theorem calculate_task_score_strategy_used:
  assumes "calculate_task_score E task all_tasks s completed_ids = Inr r"
  shows "st_strategy_used r = s
       \<and> (map_of STRATEGY_WEIGHTS s = None \<longrightarrow>
            calculate_task_score E task all_tasks ''smart_balance'' completed_ids
              = Inr (r\<lparr>st_strategy_used := ''smart_balance''\<rparr>))"
proof -
  have same: "weights_or s ''smart_balance'' = weights_or ''smart_balance'' ''smart_balance''"
    if "map_of STRATEGY_WEIGHTS s = None"
    using that by (simp add: weights_or_def STRATEGY_WEIGHTS_def)
  from assms have name: "st_strategy_used r = s"
    by (auto simp: calculate_task_score_def Let_def split: sum.splits prod.splits)
  have "calculate_task_score E task all_tasks ''smart_balance'' completed_ids
          = Inr (r\<lparr>st_strategy_used := ''smart_balance''\<rparr>)"
    if unknown: "map_of STRATEGY_WEIGHTS s = None"
    using assms same [OF unknown]
    by (auto simp: calculate_task_score_def Let_def split: sum.splits prod.splits)
  with name show ?thesis by blast
qed

theorem calculate_task_score_strategy_used_witness:
  "\<exists>r. calculate_task_score sample_env plain_task None ''bogus'' None = Inr r
       \<and> map_of STRATEGY_WEIGHTS ''bogus'' = None
       \<and> st_strategy_used r = ''bogus''
       \<and> st_score r = 51
       \<and> calculate_task_score sample_env plain_task None ''smart_balance'' None
           = Inr (r\<lparr>st_strategy_used := ''smart_balance''\<rparr>)"
proof -
  have unknown: "map_of STRATEGY_WEIGHTS ''bogus'' = None"
    by (simp add: STRATEGY_WEIGHTS_def)
  have "\<exists>r. calculate_task_score sample_env plain_task None ''bogus'' None = Inr r
            \<and> st_score r = 51"
    by (simp add: calculate_task_score_def plain_task_def validate_task_data_def get_or_def
        Let_def strip_def is_space_def weights_or_def STRATEGY_WEIGHTS_def
        calculate_urgency_score_def calculate_importance_score_def calculate_effort_score_def
        calculate_dependency_score_def str_int_def str_nat_digit digit_char_def
        priority_of_def round2_def round_half_even_def sample_env_def)
  then obtain r where
    r: "calculate_task_score sample_env plain_task None ''bogus'' None = Inr r" and
    score: "st_score r = 51"
    by blast
  from calculate_task_score_strategy_used [OF r] unknown score r show ?thesis
    by blast
qed

section \<open>Batch ordering\<close>

lemma sort_reverse_sorted:
  "sorted_wrt (\<lambda>a b. key b \<le> key a) (sort_reverse key xs)"
proof -
  have "sorted (map key (sort_key key (rev xs)))"
    by (rule sorted_sort_key)
  then have "sorted_wrt (\<lambda>a b. key a \<le> key b) (sort_key key (rev xs))"
    by (simp add: sorted_wrt_map)
  then show ?thesis
    by (simp add: sort_reverse_def sorted_wrt_rev)
qed

lemma sort_reverse_stable:
  "filter (\<lambda>t. key t = v) (sort_reverse key xs) = filter (\<lambda>t. key t = v) xs"
proof -
  have "filter (\<lambda>t. key t = v) (sort_key key (rev xs)) = filter (\<lambda>t. key t = v) (rev xs)"
    by (rule sort_key_stable)
  then show ?thesis
    by (simp add: sort_reverse_def rev_filter [symmetric])
qed

lemma length_sort_reverse: "length (sort_reverse key xs) = length xs"
  by (simp add: sort_reverse_def)

lemma set_sort_reverse: "set (sort_reverse key xs) = set xs"
  by (simp add: sort_reverse_def)

lemma add_rank_erase:
  "map (\<lambda>t. t\<lparr>st_rank := None\<rparr>) (add_rank i xs) = map (\<lambda>t. t\<lparr>st_rank := None\<rparr>) xs"
  by (induction xs arbitrary: i) simp_all

lemma add_rank_ranks: "map st_rank (add_rank i xs) = map Some [i..<i + length xs]"
proof (induction xs arbitrary: i)
  case Nil
  then show ?case by simp
next
  case (Cons x xs)
  have "i < i + length (x # xs)" by simp
  from upt_conv_Cons [OF this]
  have "[i..<i + length (x # xs)] = i # [Suc i..<Suc i + length xs]" by simp
  then show ?case using Cons.IH [of "Suc i"] by simp
qed

lemma calculate_task_score_rank:
  "calculate_task_score E t a s c = Inr r \<Longrightarrow> st_rank r = None"
  by (auto simp: calculate_task_score_def Let_def split: sum.splits prod.splits)

lemma score_all_unranked:
  "score_all E ts a s c = Inr scored \<Longrightarrow>
     length scored = length ts \<and> map (\<lambda>t. t\<lparr>st_rank := None\<rparr>) scored = scored"
proof (induction ts arbitrary: scored)
  case Nil
  then show ?case by simp
next
  case (Cons t ts)
  from Cons.prems obtain r rest where
    r: "calculate_task_score E t (Some a) s c = Inr r" and
    rest: "score_all E ts a s c = Inr rest" and
    eq: "scored = r # rest"
    by (auto split: sum.splits)
  from calculate_task_score_rank [OF r] have "r\<lparr>st_rank := None\<rparr> = r" by simp
  with Cons.IH [OF rest] eq show ?case by simp
qed

lemma sorted_by_score_erase:
  "sorted_wrt (\<lambda>a b. st_score b \<le> st_score a) (map (\<lambda>t. t\<lparr>st_rank := None\<rparr>) xs)
     = sorted_wrt (\<lambda>a b. st_score b \<le> st_score a) xs"
  by (simp add: sorted_wrt_map)

lemma analyze_tasks_Inr:
  assumes "tasks \<noteq> []" and "analyze_tasks E tasks strategy completed_ids = Inr res"
  shows "\<exists>scored. score_all E tasks tasks strategy completed_ids = Inr scored
           \<and> br_tasks res = add_rank 1 (sort_reverse st_score scored)"
  using assms
  by (auto simp: analyze_tasks_def Let_def split: sum.splits option.splits)

text \<open>
  C8. For every non-empty batch on which \<open>analyze_tasks\<close> returns a result, the returned
  tasks are in descending order of final score; the tasks of any one score appear in the
  order in which the input batch was scored, so ties keep their input order; and the
  rank fields are 1, 2, 3, ... along the sequence, one per input task.
\<close>

theorem analyze_tasks_sorted_stable_ranked:
  assumes "tasks \<noteq> []" and "analyze_tasks E tasks strategy completed_ids = Inr res"
  shows "sorted_wrt (\<lambda>a b. st_score b \<le> st_score a) (br_tasks res)
       \<and> (\<exists>scored. score_all E tasks tasks strategy completed_ids = Inr scored
             \<and> length scored = length tasks
             \<and> (\<forall>v. filter (\<lambda>t. st_score t = v) (map (\<lambda>t. t\<lparr>st_rank := None\<rparr>) (br_tasks res))
                    = filter (\<lambda>t. st_score t = v) scored))
       \<and> map st_rank (br_tasks res) = map Some [1..<Suc (length tasks)]"
proof -
  from analyze_tasks_Inr [OF assms] obtain scored where
    sc: "score_all E tasks tasks strategy completed_ids = Inr scored" and
    res: "br_tasks res = add_rank 1 (sort_reverse st_score scored)"
    by blast
  let ?erase = "\<lambda>t. t\<lparr>st_rank := None\<rparr>"
  let ?sorted = "sort_reverse st_score scored"
  from score_all_unranked [OF sc] have
    len: "length scored = length tasks" and unranked: "map ?erase scored = scored"
    by simp_all
  have set_eq: "set ?sorted = set scored" by (rule set_sort_reverse)
  have "map ?erase ?sorted = ?sorted"
  proof (rule map_idI)
    fix t assume "t \<in> set ?sorted"
    then have "t \<in> set scored" using set_eq by simp
    then show "?erase t = t"
      using unranked by (metis map_eq_conv map_ident)
  qed
  then have erased: "map ?erase (br_tasks res) = ?sorted"
    by (simp add: res add_rank_erase)
  have "sorted_wrt (\<lambda>a b. st_score b \<le> st_score a) (map ?erase (br_tasks res))"
    unfolding erased by (rule sort_reverse_sorted)
  then have 1: "sorted_wrt (\<lambda>a b. st_score b \<le> st_score a) (br_tasks res)"
    by (simp only: sorted_by_score_erase)
  have 2: "\<forall>v. filter (\<lambda>t. st_score t = v) (map ?erase (br_tasks res))
              = filter (\<lambda>t. st_score t = v) scored"
    unfolding erased by (simp add: sort_reverse_stable)
  have 3: "map st_rank (br_tasks res) = map Some [1..<Suc (length tasks)]"
    by (simp add: res add_rank_ranks length_sort_reverse len)
  from 1 2 3 sc len show ?thesis by blast
qed

theorem analyze_tasks_sorted_stable_ranked_witness:
  "tie_batch \<noteq> []
   \<and> (\<exists>res. analyze_tasks sample_env tie_batch ''balanced'' None = Inr res
          \<and> map st_title (br_tasks res) = [''B'', ''A'', ''C'']
          \<and> map st_score (br_tasks res) = [66, 51, 51]
          \<and> sorted_wrt (\<lambda>a b. st_score b \<le> st_score a) (br_tasks res)
          \<and> map st_rank (br_tasks res) = map Some [1..<Suc (length tie_batch)])"
proof -
  have nonempty: "tie_batch \<noteq> []"
    by (simp add: tie_batch_def)
  have "\<exists>res. analyze_tasks sample_env tie_batch ''balanced'' None = Inr res
          \<and> map st_title (br_tasks res) = [''B'', ''A'', ''C'']
          \<and> map st_score (br_tasks res) = [66, 51, 51]"
    by (simp add: analyze_tasks_def tie_batch_def detect_circular_dependencies_def
        calculate_task_score_def validate_task_data_def get_or_def
        Let_def strip_def is_space_def weights_or_def STRATEGY_WEIGHTS_def
        calculate_urgency_score_def calculate_importance_score_def calculate_effort_score_def
        calculate_dependency_score_def str_int_def str_nat_digit digit_char_def
        priority_of_def round2_def round_half_even_def sample_env_def sort_reverse_def)
  then obtain res where
    res: "analyze_tasks sample_env tie_batch ''balanced'' None = Inr res" and
    titles: "map st_title (br_tasks res) = [''B'', ''A'', ''C'']" and
    scores: "map st_score (br_tasks res) = [66, 51, 51]"
    by (elim exE conjE)
  note ordered = analyze_tasks_sorted_stable_ranked [OF nonempty res]
  from ordered have desc: "sorted_wrt (\<lambda>a b. st_score b \<le> st_score a) (br_tasks res)"
    by (rule conjunct1)
  from ordered have ranks: "map st_rank (br_tasks res) = map Some [1..<Suc (length tie_batch)]"
    by (rule conjunct2 [THEN conjunct2])
  have "analyze_tasks sample_env tie_batch ''balanced'' None = Inr res
          \<and> map st_title (br_tasks res) = [''B'', ''A'', ''C'']
          \<and> map st_score (br_tasks res) = [66, 51, 51]
          \<and> sorted_wrt (\<lambda>a b. st_score b \<le> st_score a) (br_tasks res)
          \<and> map st_rank (br_tasks res) = map Some [1..<Suc (length tie_batch)]"
    by (intro conjI res titles scores desc ranks)
  then have "\<exists>res. analyze_tasks sample_env tie_batch ''balanced'' None = Inr res
          \<and> map st_title (br_tasks res) = [''B'', ''A'', ''C'']
          \<and> map st_score (br_tasks res) = [66, 51, 51]
          \<and> sorted_wrt (\<lambda>a b. st_score b \<le> st_score a) (br_tasks res)
          \<and> map st_rank (br_tasks res) = map Some [1..<Suc (length tie_batch)]"
    by (rule exI)
  with nonempty show ?thesis by (rule conjI)
qed

end
